theory Spec2Isabelle
  imports Complex_Main
begin

section \<open>Common conventions\<close>

text \<open>
  Python floats are modelled by the real numbers: unless it says otherwise, a statement
  below is about the program in exact arithmetic. The rupture surface is modelled a
  second time with the rounding of double precision, where a bound that holds in exact
  arithmetic is broken by a rounding error. Exceptions are values: a function that can
  raise returns \<open>error + 'a\<close>, with \<open>Inl\<close> for the exception.
\<close>

datatype error = ValueError | AssertionError | RuntimeError | ZeroDivisionError

section \<open>Module \<open>nhe.geo._utils\<close>\<close>

subsection \<open>Points and \<open>clean_points\<close>\<close>

text \<open>
  Modelled from the spec: the class \<open>Point\<close> (module \<open>geo.point\<close>) is not among the
  sources. Following the data model of the specification, a point is a triple of
  longitude, latitude and depth (in km, positive downward), and two points are equal
  when all three fields are.
\<close>

record point =
  longitude :: real
  latitude :: real
  depth :: real

text \<open>
  \<open>clean_points\<close> compares points with \<open>!=\<close>, a method of the absent class; the
  comparison is the parameter \<open>ne\<close> of the model, and the specification's exact
  comparison is \<open>(\<noteq>)\<close> on the record above. The loop runs over all of \<open>points\<close>,
  its first element included, and compares each point with \<open>result[-1]\<close>; \<open>result\<close>
  is never empty.
\<close>

definition clean_points :: "('a \<Rightarrow> 'a \<Rightarrow> bool) \<Rightarrow> 'a list \<Rightarrow> 'a list" where
  "clean_points ne points =
     (if points = [] then points
      else foldl (\<lambda>result point.
                    if ne point (last result) then result @ [point] else result)
             [hd points] points)"

text \<open>
  The specification's wording of the same operation, for comparison with the code:
  the first point is kept, and each later point is removed when it equals the
  immediately preceding retained point.
\<close>

fun drop_equal_to_retained :: "('a \<Rightarrow> 'a \<Rightarrow> bool) \<Rightarrow> 'a \<Rightarrow> 'a list \<Rightarrow> 'a list" where
  "drop_equal_to_retained ne retained [] = []"
| "drop_equal_to_retained ne retained (p # ps) =
     (if ne p retained then p # drop_equal_to_retained ne p ps
      else drop_equal_to_retained ne retained ps)"

fun cleanAdjacentDuplicates :: "('a \<Rightarrow> 'a \<Rightarrow> bool) \<Rightarrow> 'a list \<Rightarrow> 'a list" where
  "cleanAdjacentDuplicates ne [] = []"
| "cleanAdjacentDuplicates ne (p # ps) = p # drop_equal_to_retained ne p ps"

subsection \<open>\<open>get_longitudinal_extent\<close>\<close>


subsection \<open>\<open>get_spherical_bounding_box\<close>\<close>


subsection \<open>\<open>get_stereographic_projection\<close> and \<open>line_intersects_itself\<close>\<close>





subsection \<open>Longitudinal span of a point collection\<close>




section \<open>Module \<open>openquake.hazardlib.source.point\<close>\<close>

subsection \<open>Data\<close>

record nodal_plane =
  strike :: real
  dip :: real
  rake :: real

text \<open>
  The arguments of the \<open>PlanarSurface\<close> constructor, in its order: mesh spacing, strike,
  dip, and the corners top left, top right, bottom right, bottom left.
\<close>

record planar_surface =
  surface_mesh_spacing :: real
  surface_strike :: real
  surface_dip :: real
  top_left :: point
  top_right :: point
  bottom_right :: point
  bottom_left :: point

text \<open>
  The attributes of a \<open>PointSource\<close> that the methods below read. The collaborators are
  fields too: \<open>get_annual_occurrence_rates\<close> is the list of (magnitude, rate) pairs the
  method of that name returns, \<open>get_median_area\<close> the method of the magnitude-scaling
  relationship, the two distributions are the \<open>data\<close> lists of (probability, value)
  pairs of the PMF objects, and \<open>source_class\<close> stands for \<open>type(self)\<close>.
\<close>

record point_source =
  source_class :: string
  tectonic_region_type :: string
  get_annual_occurrence_rates :: "(real \<times> real) list"
  rupture_mesh_spacing :: real
  get_median_area :: "real \<Rightarrow> real \<Rightarrow> real"
  rupture_aspect_ratio :: real
  upper_seismogenic_depth :: real
  lower_seismogenic_depth :: real
  location :: point
  nodal_plane_distribution :: "(real \<times> nodal_plane) list"
  hypocenter_distribution :: "(real \<times> real) list"

text \<open>The arguments of the \<open>ProbabilisticRupture\<close> constructor, in its order.\<close>

record 'tom probabilistic_rupture =
  rupture_mag :: real
  rupture_rake :: real
  rupture_tectonic_region_type :: string
  hypocenter :: point
  surface :: planar_surface
  source_typology :: string
  occurrence_rate :: real
  temporal_occurrence_model :: 'tom

text \<open>
  The checks of \<open>PointSource.__init__\<close> on the attributes (the constructor of the base
  class is not among the sources).
\<close>

definition point_source_init :: "point_source \<Rightarrow> error + point_source" where
  "point_source_init src =
     (if upper_seismogenic_depth src < 0 then Inl ValueError
      else if \<not> lower_seismogenic_depth src > upper_seismogenic_depth src then Inl ValueError
      else if \<not> list_all (\<lambda>(prob, depth).
                    upper_seismogenic_depth src \<le> depth
                  \<and> depth \<le> lower_seismogenic_depth src) (hypocenter_distribution src)
      then Inl ValueError
      else Inr src)"

subsection \<open>Arithmetic of the \<open>math\<close> module\<close>

definition radians :: "real \<Rightarrow> real" where
  "radians x = x * pi / 180"

text \<open>Python's \<open>x % y\<close> on floats, for a positive \<open>y\<close>: the result lies in \<open>[0, y)\<close>.\<close>

definition py_mod :: "real \<Rightarrow> real \<Rightarrow> real" where
  "py_mod x y = x - y * of_int \<lfloor>x / y\<rfloor>"

subsection \<open>\<open>_get_rupture_dimensions\<close>\<close>

text \<open>
  \<open>math.sqrt\<close> raises \<open>ValueError\<close> on a negative argument, and a division of floats
  by zero raises \<open>ZeroDivisionError\<close>.
\<close>

definition get_rupture_dimensions ::
  "point_source \<Rightarrow> real \<Rightarrow> nodal_plane \<Rightarrow> error + (real \<times> real)" where
  "get_rupture_dimensions src mag np =
     (let area = get_median_area src mag (rake np) in
      if area * rupture_aspect_ratio src < 0 then Inl ValueError
      else
        let rup_length = sqrt (area * rupture_aspect_ratio src) in
        if rup_length = 0 then Inl ZeroDivisionError
        else
          let rup_width = area / rup_length;
              seismogenic_layer_width =
                lower_seismogenic_depth src - upper_seismogenic_depth src in
          if sin (radians (dip np)) = 0 then Inl ZeroDivisionError
          else
            let max_width = seismogenic_layer_width / sin (radians (dip np)) in
            if rup_width > max_width then
              (if max_width = 0 then Inl ZeroDivisionError
               else Inr (area / max_width, max_width))
            else Inr (rup_length, rup_width))"

subsection \<open>\<open>_get_rupture_surface\<close>\<close>

text \<open>
  \<open>Point.point_at(horizontal_distance, vertical_increment, azimuth)\<close> belongs to the
  absent class \<open>Point\<close>; it is the parameter \<open>point_at\<close>, applied to the origin point
  and the three arguments in that order.

  The division by \<open>math.tan(rdip)\<close> is written as it stands. In the source it can only
  raise when \<open>rdip\<close> is zero, and then \<open>_get_rupture_dimensions\<close> has already raised on
  \<open>math.sin(rdip)\<close>. For a dip of exactly 90 degrees the real tangent does not exist and
  HOL's \<open>tan\<close> and division give the horizontal shift 0, where the floating-point
  tangent is about \<open>1.6e16\<close> and the shift is negligible.
\<close>

definition get_rupture_surface ::
  "(point \<Rightarrow> real \<Rightarrow> real \<Rightarrow> real \<Rightarrow> point)
   \<Rightarrow> point_source \<Rightarrow> real \<Rightarrow> nodal_plane \<Rightarrow> point \<Rightarrow> error + planar_surface" where
  "get_rupture_surface point_at src mag np hypo =
     (if \<not> (upper_seismogenic_depth src \<le> depth hypo
            \<and> lower_seismogenic_depth src \<ge> depth hypo) then Inl AssertionError
      else
        let rdip = radians (dip np);
            azimuth_right = strike np;
            azimuth_down = py_mod (azimuth_right + 90) 360;
            azimuth_left = py_mod (azimuth_down + 90) 360;
            azimuth_up = py_mod (azimuth_left + 90) 360 in
        case get_rupture_dimensions src mag np of
          Inl e \<Rightarrow> Inl e
        | Inr (rup_length, rup_width) \<Rightarrow>
            let rup_proj_height = rup_width * sin rdip;
                rup_proj_width = rup_width * cos rdip;
                hheight = rup_proj_height / 2;
                vshift = upper_seismogenic_depth src - depth hypo + hheight;
                vshift =
                  (if vshift < 0 then
                     (let vshift = lower_seismogenic_depth src - depth hypo - hheight in
                      if vshift > 0 then 0 else vshift)
                   else vshift);
                rupture_center =
                  (if vshift \<noteq> 0 then
                     (let hshift = \<bar>vshift / tan rdip\<bar> in
                      point_at hypo hshift vshift
                        (if vshift < 0 then azimuth_up else azimuth_down))
                   else hypo);
                right_center = point_at rupture_center (rup_length / 2) 0 azimuth_right;
                right_bottom =
                  point_at right_center (rup_proj_width / 2) (rup_proj_height / 2) azimuth_down;
                right_top = point_at right_bottom rup_proj_width (- rup_proj_height) azimuth_up;
                left_top = point_at right_top rup_length 0 azimuth_left;
                left_bottom = point_at right_bottom rup_length 0 azimuth_left
            in Inr \<lparr>surface_mesh_spacing = rupture_mesh_spacing src,
                     surface_strike = strike np, surface_dip = dip np,
                     top_left = left_top, top_right = right_top,
                     bottom_right = right_bottom, bottom_left = left_bottom\<rparr>)"

subsection \<open>\<open>_iter_ruptures_at_location\<close> and \<open>iter_ruptures\<close>\<close>

text \<open>
  The generator is modelled by the list of all ruptures it yields when it is consumed to
  the end, or by the exception that stops it (the ruptures yielded before the exception
  are then not represented). The three nested \<open>for\<close> loops are three recursive functions,
  innermost first.
\<close>

fun ruptures_over_hypocenters ::
  "(point \<Rightarrow> real \<Rightarrow> real \<Rightarrow> real \<Rightarrow> point) \<Rightarrow> point_source \<Rightarrow> 'tom \<Rightarrow> point \<Rightarrow> real
   \<Rightarrow> real \<times> real \<Rightarrow> real \<times> nodal_plane \<Rightarrow> (real \<times> real) list
   \<Rightarrow> error + 'tom probabilistic_rupture list" where
  "ruptures_over_hypocenters point_at src tom loc rate_scaling_factor
       (mag, mag_occ_rate) (np_prob, np) [] = Inr []"
| "ruptures_over_hypocenters point_at src tom loc rate_scaling_factor
       (mag, mag_occ_rate) (np_prob, np) ((hc_prob, hc_depth) # rest) =
     (let hypo = \<lparr>longitude = longitude loc, latitude = latitude loc, depth = hc_depth\<rparr>;
          rate = mag_occ_rate * np_prob * hc_prob;
          rate = rate * rate_scaling_factor in
      case get_rupture_surface point_at src mag np hypo of
        Inl e \<Rightarrow> Inl e
      | Inr surf \<Rightarrow>
          (case ruptures_over_hypocenters point_at src tom loc rate_scaling_factor
                  (mag, mag_occ_rate) (np_prob, np) rest of
             Inl e \<Rightarrow> Inl e
           | Inr rs \<Rightarrow>
               Inr (\<lparr>rupture_mag = mag, rupture_rake = rake np,
                      rupture_tectonic_region_type = tectonic_region_type src,
                      hypocenter = hypo, surface = surf,
                      source_typology = source_class src,
                      occurrence_rate = rate,
                      temporal_occurrence_model = tom\<rparr> # rs)))"

fun ruptures_over_nodal_planes ::
  "(point \<Rightarrow> real \<Rightarrow> real \<Rightarrow> real \<Rightarrow> point) \<Rightarrow> point_source \<Rightarrow> 'tom \<Rightarrow> point \<Rightarrow> real
   \<Rightarrow> real \<times> real \<Rightarrow> (real \<times> nodal_plane) list
   \<Rightarrow> error + 'tom probabilistic_rupture list" where
  "ruptures_over_nodal_planes point_at src tom loc rate_scaling_factor m [] = Inr []"
| "ruptures_over_nodal_planes point_at src tom loc rate_scaling_factor m (p # rest) =
     (case ruptures_over_hypocenters point_at src tom loc rate_scaling_factor m p
             (hypocenter_distribution src) of
        Inl e \<Rightarrow> Inl e
      | Inr rs \<Rightarrow>
          (case ruptures_over_nodal_planes point_at src tom loc rate_scaling_factor m rest of
             Inl e \<Rightarrow> Inl e
           | Inr rs' \<Rightarrow> Inr (rs @ rs')))"

fun ruptures_over_magnitudes ::
  "(point \<Rightarrow> real \<Rightarrow> real \<Rightarrow> real \<Rightarrow> point) \<Rightarrow> point_source \<Rightarrow> 'tom \<Rightarrow> point \<Rightarrow> real
   \<Rightarrow> (real \<times> real) list \<Rightarrow> error + 'tom probabilistic_rupture list" where
  "ruptures_over_magnitudes point_at src tom loc rate_scaling_factor [] = Inr []"
| "ruptures_over_magnitudes point_at src tom loc rate_scaling_factor (m # rest) =
     (case ruptures_over_nodal_planes point_at src tom loc rate_scaling_factor m
             (nodal_plane_distribution src) of
        Inl e \<Rightarrow> Inl e
      | Inr rs \<Rightarrow>
          (case ruptures_over_magnitudes point_at src tom loc rate_scaling_factor rest of
             Inl e \<Rightarrow> Inl e
           | Inr rs' \<Rightarrow> Inr (rs @ rs')))"

definition iter_ruptures_at_location ::
  "(point \<Rightarrow> real \<Rightarrow> real \<Rightarrow> real \<Rightarrow> point) \<Rightarrow> point_source \<Rightarrow> 'tom \<Rightarrow> point \<Rightarrow> real
   \<Rightarrow> error + 'tom probabilistic_rupture list" where
  "iter_ruptures_at_location point_at src tom loc rate_scaling_factor =
     (if \<not> 0 < rate_scaling_factor then Inl AssertionError
      else ruptures_over_magnitudes point_at src tom loc rate_scaling_factor
             (get_annual_occurrence_rates src))"

text \<open>\<open>iter_ruptures\<close> leaves \<open>rate_scaling_factor\<close> at its default, 1.\<close>

definition iter_ruptures ::
  "(point \<Rightarrow> real \<Rightarrow> real \<Rightarrow> real \<Rightarrow> point) \<Rightarrow> point_source \<Rightarrow> 'tom
   \<Rightarrow> error + 'tom probabilistic_rupture list" where
  "iter_ruptures point_at src tom = iter_ruptures_at_location point_at src tom (location src) 1"

subsection \<open>The specification's wording of the vertical shift\<close>

text \<open>
  Steps 4 and 5 of the specification's \<open>ruptureSurface\<close>, written from its words, for
  comparison with the code: the vertical shift from the layer bounds, the hypocenter
  depth and the projected height, and the rupture center it leads to.
\<close>

definition spec_vshift :: "real \<Rightarrow> real \<Rightarrow> real \<Rightarrow> real \<Rightarrow> real" where
  "spec_vshift upperDepth lowerDepth hypoDepth height =
     (if upperDepth - hypoDepth + height / 2 < 0 then
        (if lowerDepth - hypoDepth - height / 2 > 0 then 0
         else lowerDepth - hypoDepth - height / 2)
      else upperDepth - hypoDepth + height / 2)"

definition spec_rupture_center ::
  "(point \<Rightarrow> real \<Rightarrow> real \<Rightarrow> real \<Rightarrow> point) \<Rightarrow> point \<Rightarrow> real \<Rightarrow> real \<Rightarrow> real \<Rightarrow> real \<Rightarrow> point" where
  "spec_rupture_center point_at hypo vshift dip_degrees up down =
     (if vshift = 0 then hypo
      else point_at hypo \<bar>vshift / tan (radians dip_degrees)\<bar> vshift
             (if vshift < 0 then up else down))"

subsection \<open>The rupture of one combination\<close>

text \<open>
  What the specification asks of the record produced for one magnitude bin \<open>m\<close>, one
  nodal-plane entry \<open>p\<close> and one hypocenter-depth entry \<open>h\<close> (each a pair from its
  table): the occurrence rate is the product of the three table values and the scaling
  factor, the hypocenter is the given location with the sampled depth, and the surface
  is the one \<open>_get_rupture_surface\<close> builds for them.
\<close>

definition is_rupture_of ::
  "(point \<Rightarrow> real \<Rightarrow> real \<Rightarrow> real \<Rightarrow> point) \<Rightarrow> point_source \<Rightarrow> 'tom \<Rightarrow> point \<Rightarrow> real
   \<Rightarrow> real \<times> real \<Rightarrow> real \<times> nodal_plane \<Rightarrow> real \<times> real
   \<Rightarrow> 'tom probabilistic_rupture \<Rightarrow> bool" where
  "is_rupture_of point_at src tom loc rate_scaling_factor m p h r =
     (rupture_mag r = fst m
      \<and> rupture_rake r = rake (snd p)
      \<and> rupture_tectonic_region_type r = tectonic_region_type src
      \<and> hypocenter r
          = \<lparr>longitude = longitude loc, latitude = latitude loc, depth = snd h\<rparr>
      \<and> get_rupture_surface point_at src (fst m) (snd p) (hypocenter r) = Inr (surface r)
      \<and> source_typology r = source_class src
      \<and> occurrence_rate r = snd m * fst p * fst h * rate_scaling_factor
      \<and> temporal_occurrence_model r = tom)"

subsection \<open>A small source for concrete evaluation\<close>

text \<open>
  A source with one magnitude bin, two vertical nodal planes and two hypocenter depths in
  a layer from 0 to 10 km, whose scaling relationship gives every rupture 4 square km,
  and a stepping primitive that keeps longitude and latitude and adds the vertical
  increment to the depth.
\<close>

definition example_point_at :: "point \<Rightarrow> real \<Rightarrow> real \<Rightarrow> real \<Rightarrow> point" where
  "example_point_at p horizontal_distance vertical_increment azimuth =
     \<lparr>longitude = longitude p, latitude = latitude p, depth = depth p + vertical_increment\<rparr>"

definition example_plane :: "real \<Rightarrow> nodal_plane" where
  "example_plane r = \<lparr>strike = 0, dip = 90, rake = r\<rparr>"

definition example_source :: "real \<Rightarrow> point_source" where
  "example_source lower =
     \<lparr>source_class = ''PointSource'', tectonic_region_type = ''Active Shallow Crust'',
      get_annual_occurrence_rates = [(6, 1 / 100)],
      rupture_mesh_spacing = 1,
      get_median_area = (\<lambda>mag rake. 4),
      rupture_aspect_ratio = 1,
      upper_seismogenic_depth = 0,
      lower_seismogenic_depth = lower,
      location = \<lparr>longitude = 10, latitude = 20, depth = 0\<rparr>,
      nodal_plane_distribution = [(1 / 4, example_plane 0), (3 / 4, example_plane 90)],
      hypocenter_distribution = [(1 / 2, 1 / 2), (1 / 2, 5)]\<rparr>"

subsection \<open>The rupture surface in floating-point arithmetic\<close>

text \<open>
  The definitions above compute in the real numbers. The program computes in IEEE 754
  double precision: every arithmetic operation returns the float nearest to the exact
  result, ties going to the even significand. \<open>round64\<close> is that rounding for a
  significand of 53 bits (overflow, subnormal numbers and NaN are left out: they are far
  from depths in km and angles in degrees), and the two functions below are
  \<open>_get_rupture_dimensions\<close> and \<open>_get_rupture_surface\<close> again, with each operation of
  the source rounded where it stands. The functions of the \<open>math\<close> module are taken to
  return the float nearest to the exact value. Halving, negation and \<open>abs\<close> are exact
  on floats, and so is the remainder of \<open>%\<close> before Python adjusts its sign.
\<close>

definition round_half_even :: "real \<Rightarrow> int" where
  "round_half_even q =
     (let n = \<lfloor>q\<rfloor>; r = q - of_int n in
      if r < 1 / 2 then n else if r > 1 / 2 then n + 1
      else if even n then n else n + 1)"

definition round64 :: "real \<Rightarrow> real" where
  "round64 x =
     (if x = 0 then 0
      else
        let ulp = 2 powr (of_int \<lfloor>log 2 \<bar>x\<bar>\<rfloor> - 52) in
        of_int (round_half_even (x / ulp)) * ulp)"












section \<open>Properties of \<open>get_longitudinal_extent\<close>\<close>





section \<open>Properties of \<open>clean_points\<close>\<close>

lemma foldl_clean_step:
  "result \<noteq> [] \<Longrightarrow>
   foldl (\<lambda>result point. if ne point (last result) then result @ [point] else result) result ps
     = result @ drop_equal_to_retained ne (last result) ps"
  by (induction ps arbitrary: result) auto

lemma clean_points_spec:
  assumes "\<forall>p. \<not> ne p p"
  shows "clean_points ne ps = cleanAdjacentDuplicates ne ps"
proof (cases ps)
  case Nil
  then show ?thesis by (simp add: clean_points_def)
next
  case (Cons p rest)
  then show ?thesis
    using assms foldl_clean_step [of "[p]" ne rest] by (simp add: clean_points_def)
qed

lemma drop_equal_remdups_adj:
  "p # drop_equal_to_retained (\<noteq>) p ps = remdups_adj (p # ps)"
  by (induction ps arbitrary: p) auto

lemma clean_points_remdups_adj: "clean_points (\<noteq>) ps = remdups_adj ps"
proof (cases ps)
  case Nil
  then show ?thesis by (simp add: clean_points_def)
next
  case (Cons p rest)
  have "clean_points (\<noteq>) ps = cleanAdjacentDuplicates (\<noteq>) ps"
    by (rule clean_points_spec) simp
  then show ?thesis
    using Cons drop_equal_remdups_adj [of p rest]
    by (simp only: cleanAdjacentDuplicates.simps)
qed

text \<open>
  Claim C9. For every list of points, \<open>clean_points\<close> returns what the specification
  describes: the first point, and each later point unless it equals the immediately
  preceding retained point. This holds for any comparison under which a point equals
  itself; for the exact comparison on longitude, latitude and depth the result is the
  list with adjacent duplicates removed. The empty list is returned as it is, and
  \<open>[a, a, a, b, a, c, c]\<close> becomes \<open>[a, b, a, c]\<close> for the points of the docstring.
\<close>

theorem clean_points_adjacent:
  fixes ne :: "'a \<Rightarrow> 'a \<Rightarrow> bool" and ps :: "'a list" and qs :: "point list"
  shows "((\<forall>p. \<not> ne p p) \<longrightarrow> clean_points ne ps = cleanAdjacentDuplicates ne ps)
       \<and> clean_points (\<noteq>) qs = cleanAdjacentDuplicates (\<noteq>) qs
       \<and> clean_points (\<noteq>) qs = remdups_adj qs
       \<and> clean_points ne ([]::'a list) = []
       \<and> (let a = \<lparr>longitude = 1, latitude = 2, depth = 3\<rparr>;
              b = \<lparr>longitude = 3, latitude = 4, depth = 5\<rparr>;
              c = \<lparr>longitude = 5, latitude = 6, depth = 7\<rparr>
          in clean_points (\<noteq>) [a, a, a, b, a, c, c] = [a, b, a, c])"
proof -
  have "clean_points (\<noteq>) qs = cleanAdjacentDuplicates (\<noteq>) qs"
    by (rule clean_points_spec) simp
  moreover have "clean_points ne ([]::'a list) = []"
    by (simp add: clean_points_def)
  moreover have "let a = \<lparr>longitude = 1, latitude = 2, depth = 3\<rparr>;
              b = \<lparr>longitude = 3, latitude = 4, depth = 5\<rparr>;
              c = \<lparr>longitude = 5, latitude = 6, depth = 7\<rparr>
          in clean_points (\<noteq>) [a, a, a, b, a, c, c] = [a, b, a, c]"
    by (simp add: clean_points_remdups_adj)
  ultimately show ?thesis
    using clean_points_spec [of ne ps] clean_points_remdups_adj [of qs] by blast
qed

theorem clean_points_adjacent_witness:
  "(\<forall>p::point. \<not> p \<noteq> p)
   \<and> clean_points (\<noteq>)
        [\<lparr>longitude = 1, latitude = 2, depth = 3\<rparr>,
         \<lparr>longitude = 1, latitude = 2, depth = 3\<rparr>,
         \<lparr>longitude = 3, latitude = 4, depth = 5\<rparr>,
         \<lparr>longitude = 1, latitude = 2, depth = 3\<rparr>]
       = [\<lparr>longitude = 1, latitude = 2, depth = 3\<rparr>,
          \<lparr>longitude = 3, latitude = 4, depth = 5\<rparr>,
          \<lparr>longitude = 1, latitude = 2, depth = 3\<rparr>]"
proof -
  have irrefl: "\<forall>p::point. \<not> p \<noteq> p" by simp
  have "clean_points (\<noteq>)
        [\<lparr>longitude = 1, latitude = 2, depth = 3\<rparr>,
         \<lparr>longitude = 1, latitude = 2, depth = 3\<rparr>,
         \<lparr>longitude = 3, latitude = 4, depth = 5\<rparr>,
         \<lparr>longitude = 1, latitude = 2, depth = 3\<rparr>]
      = cleanAdjacentDuplicates (\<noteq>)
        [\<lparr>longitude = 1, latitude = 2, depth = 3\<rparr>,
         \<lparr>longitude = 1, latitude = 2, depth = 3\<rparr>,
         \<lparr>longitude = 3, latitude = 4, depth = 5\<rparr>,
         \<lparr>longitude = 1, latitude = 2, depth = 3\<rparr>]"
    using irrefl clean_points_adjacent [where ne = "(\<noteq>)" and ps = "[\<lparr>longitude = 1, latitude = 2, depth = 3\<rparr>,
         \<lparr>longitude = 1, latitude = 2, depth = 3\<rparr>,
         \<lparr>longitude = 3, latitude = 4, depth = 5\<rparr>,
         \<lparr>longitude = 1, latitude = 2, depth = 3\<rparr>]"]
    by blast
  then show ?thesis using irrefl by simp
qed

section \<open>Properties of \<open>get_spherical_bounding_box\<close> and \<open>line_intersects_itself\<close>\<close>


















section \<open>Properties of the point source\<close>

lemma sin_radians_pos:
  assumes "0 < d" "d \<le> 90"
  shows "0 < sin (radians d)"
proof -
  have "0 < radians d" using assms by (simp add: radians_def)
  moreover have "radians d \<le> pi / 2" using assms by (simp add: radians_def)
  then have "radians d < pi" using pi_gt_zero by linarith
  ultimately show ?thesis by (rule sin_gt_zero)
qed

lemma rupture_dimensions_unfold:
  fixes src :: point_source and mag :: real and np :: nodal_plane
  defines "area \<equiv> get_median_area src mag (rake np)"
  defines "len \<equiv> sqrt (get_median_area src mag (rake np) * rupture_aspect_ratio src)"
  defines "maxw \<equiv> (lower_seismogenic_depth src - upper_seismogenic_depth src)
                    / sin (radians (dip np))"
  assumes "0 < get_median_area src mag (rake np)"
    and "0 < rupture_aspect_ratio src"
    and "0 < dip np" "dip np \<le> 90"
    and "upper_seismogenic_depth src < lower_seismogenic_depth src"
  shows "get_rupture_dimensions src mag np =
           (if area / len > maxw then Inr (area / maxw, maxw) else Inr (len, area / len))"
    and "0 < area" and "0 < len" and "0 < maxw" and "len * len = area * rupture_aspect_ratio src"
proof -
  have s: "0 < sin (radians (dip np))" using assms(6,7) by (rule sin_radians_pos)
  show a: "0 < area" using assms(4) by (simp add: area_def)
  have prod: "0 < get_median_area src mag (rake np) * rupture_aspect_ratio src"
    using assms(4,5) by simp
  then show l: "0 < len" by (simp add: len_def)
  show m: "0 < maxw" using assms(8) s by (simp add: maxw_def)
  show "len * len = area * rupture_aspect_ratio src"
    unfolding len_def area_def using prod by (simp only: real_sqrt_mult_self abs_of_pos)
  have n1: "\<not> get_median_area src mag (rake np) * rupture_aspect_ratio src < 0"
    using prod by linarith
  have n2: "sqrt (get_median_area src mag (rake np) * rupture_aspect_ratio src) \<noteq> 0"
    using l unfolding len_def by linarith
  have n3: "sin (radians (dip np)) \<noteq> 0" using s by linarith
  have n4: "(lower_seismogenic_depth src - upper_seismogenic_depth src)
              / sin (radians (dip np)) \<noteq> 0"
    using m unfolding maxw_def by linarith
  show "get_rupture_dimensions src mag np =
           (if area / len > maxw then Inr (area / maxw, maxw) else Inr (len, area / len))"
    unfolding area_def len_def maxw_def
    by (simp only: get_rupture_dimensions_def Let_def n1 n2 n3 n4 if_True if_False)
qed

lemma mult_divide_cancel_real: "(b::real) \<noteq> 0 \<Longrightarrow> b * (a / b) = a"
  by simp

lemma dimensions_arith:
  fixes area ar layer s :: real
  assumes "0 < area" "0 < ar" "0 < layer" "0 < s"
  shows "0 < sqrt (area * ar)"
    and "0 < layer / s"
    and "area / (layer / s) * (layer / s) = area"
    and "sqrt (area * ar) * (area / sqrt (area * ar)) = area"
    and "layer / s * s = layer"
    and "0 < area / (layer / s)"
    and "0 < area / sqrt (area * ar)"
    and "\<not> area / sqrt (area * ar) > layer / s \<Longrightarrow> area / sqrt (area * ar) * s \<le> layer"
proof -
  show l: "0 < sqrt (area * ar)" using assms by simp
  show m: "0 < layer / s" using assms by simp
  show "area / (layer / s) * (layer / s) = area" using assms by simp
  have "sqrt (area * ar) \<noteq> 0" using l by linarith
  then show "sqrt (area * ar) * (area / sqrt (area * ar)) = area"
    by (rule mult_divide_cancel_real)
  show "layer / s * s = layer" using assms by simp
  show "0 < area / (layer / s)" using assms by simp
  show "0 < area / sqrt (area * ar)" using assms(1) l by (rule divide_pos_pos)
  show "area / sqrt (area * ar) * s \<le> layer" if "\<not> area / sqrt (area * ar) > layer / s"
  proof -
    have "area / sqrt (area * ar) \<le> layer / s" using that by simp
    then have "area / sqrt (area * ar) * s \<le> layer / s * s"
      using assms(4) by (simp add: mult_right_mono del: times_divide_eq_left)
    then show ?thesis using assms(4) by simp
  qed
qed

lemma rupture_dimensions_props:
  fixes src :: point_source and mag :: real and np :: nodal_plane
  assumes area: "0 < get_median_area src mag (rake np)"
    and ar: "0 < rupture_aspect_ratio src"
    and dip: "0 < dip np" "dip np \<le> 90"
    and layer: "upper_seismogenic_depth src < lower_seismogenic_depth src"
  shows "\<exists>l w. get_rupture_dimensions src mag np = Inr (l, w)
           \<and> 0 < l \<and> 0 < w \<and> l * w = get_median_area src mag (rake np)
           \<and> w * sin (radians (dip np))
               \<le> lower_seismogenic_depth src - upper_seismogenic_depth src"
proof -
  define a where "a = get_median_area src mag (rake np)"
  define r where "r = rupture_aspect_ratio src"
  define y where "y = lower_seismogenic_depth src - upper_seismogenic_depth src"
  define s where "s = sin (radians (dip np))"
  have pos: "0 < a" "0 < r" "0 < y" "0 < s"
    using area ar layer sin_radians_pos [OF dip] by (simp_all add: a_def r_def y_def s_def)
  note ar = dimensions_arith [OF pos]
  have u: "get_rupture_dimensions src mag np =
           (if a / sqrt (a * r) > y / s then Inr (a / (y / s), y / s)
            else Inr (sqrt (a * r), a / sqrt (a * r)))"
    unfolding a_def r_def y_def s_def
    by (rule rupture_dimensions_unfold(1) [OF assms])
  have goal: "\<exists>l w. get_rupture_dimensions src mag np = Inr (l, w)
           \<and> 0 < l \<and> 0 < w \<and> l * w = a \<and> w * s \<le> y"
  proof (cases "a / sqrt (a * r) > y / s")
    case True
    then have "get_rupture_dimensions src mag np = Inr (a / (y / s), y / s)"
      using u by simp
    then show ?thesis using ar(2,3,5,6) by (intro exI conjI) (assumption, simp_all)
  next
    case False
    then have "get_rupture_dimensions src mag np = Inr (sqrt (a * r), a / sqrt (a * r))"
      using u by simp
    then show ?thesis using ar(1,4,7) ar(8) [OF False]
      by (intro exI conjI) (assumption, simp_all)
  qed
  then show ?thesis unfolding a_def y_def s_def .
qed

lemma rupture_surface_unfold:
  fixes point_at :: "point \<Rightarrow> real \<Rightarrow> real \<Rightarrow> real \<Rightarrow> point"
    and src :: point_source and np :: nodal_plane and hypo :: point and l w mag :: real
  assumes pre: "upper_seismogenic_depth src \<le> depth hypo"
      "depth hypo \<le> lower_seismogenic_depth src"
    and dims: "get_rupture_dimensions src mag np = Inr (l, w)"
  defines "right \<equiv> strike np"
  defines "down \<equiv> py_mod (strike np + 90) 360"
  defines "left \<equiv> py_mod (py_mod (strike np + 90) 360 + 90) 360"
  defines "up \<equiv> py_mod (py_mod (py_mod (strike np + 90) 360 + 90) 360 + 90) 360"
  defines "height \<equiv> w * sin (radians (dip np))"
  defines "hwidth \<equiv> w * cos (radians (dip np))"
  defines "center \<equiv> spec_rupture_center point_at hypo
      (spec_vshift (upper_seismogenic_depth src) (lower_seismogenic_depth src)
         (depth hypo) (w * sin (radians (dip np))))
      (dip np)
      (py_mod (py_mod (py_mod (strike np + 90) 360 + 90) 360 + 90) 360)
      (py_mod (strike np + 90) 360)"
  defines "rb \<equiv> point_at (point_at center (l / 2) 0 right) (hwidth / 2) (height / 2) down"
  shows "get_rupture_surface point_at src mag np hypo =
     Inr \<lparr>surface_mesh_spacing = rupture_mesh_spacing src,
          surface_strike = strike np, surface_dip = dip np,
          top_left = point_at (point_at rb hwidth (- height) up) l 0 left,
          top_right = point_at rb hwidth (- height) up,
          bottom_right = rb,
          bottom_left = point_at rb l 0 left\<rparr>"
  unfolding rb_def center_def height_def hwidth_def right_def down_def left_def up_def
  using pre dims
  by (simp add: get_rupture_surface_def Let_def spec_rupture_center_def spec_vshift_def)




text \<open>
  Claim C2. The surface \<open>_get_rupture_surface\<close> returns is built around the rupture
  center of the specification's three-way policy: the vertical shift is
  \<open>upperDepth - depth + height / 2\<close>; when that is negative it is recomputed as
  \<open>lowerDepth - depth - height / 2\<close>, and set to 0 when the recomputed value is positive
  (\<open>spec_vshift\<close>); for a shift other than 0 the center is the hypocenter moved by
  \<open>|vshift / tan(dip)|\<close> along azimuth up (negative shift) or down (positive shift)
  with the vertical increment \<open>vshift\<close>, and for the shift 0 it is the hypocenter itself
  (\<open>spec_rupture_center\<close>). The four corners are stepped from that center.
\<close>

theorem rupture_surface_vertical_shift:
  fixes point_at :: "point \<Rightarrow> real \<Rightarrow> real \<Rightarrow> real \<Rightarrow> point"
    and src :: point_source and np :: nodal_plane and hypo :: point and l w mag :: real
  assumes "upper_seismogenic_depth src \<le> depth hypo"
    and "depth hypo \<le> lower_seismogenic_depth src"
    and "get_rupture_dimensions src mag np = Inr (l, w)"
  shows "let right = strike np;
             down = py_mod (right + 90) 360;
             left = py_mod (down + 90) 360;
             up = py_mod (left + 90) 360;
             height = w * sin (radians (dip np));
             hwidth = w * cos (radians (dip np));
             vshift = spec_vshift (upper_seismogenic_depth src) (lower_seismogenic_depth src)
                        (depth hypo) height;
             center = spec_rupture_center point_at hypo vshift (dip np) up down;
             right_bottom =
               point_at (point_at center (l / 2) 0 right) (hwidth / 2) (height / 2) down;
             right_top = point_at right_bottom hwidth (- height) up
         in get_rupture_surface point_at src mag np hypo =
              Inr \<lparr>surface_mesh_spacing = rupture_mesh_spacing src,
                   surface_strike = strike np, surface_dip = dip np,
                   top_left = point_at right_top l 0 left,
                   top_right = right_top,
                   bottom_right = right_bottom,
                   bottom_left = point_at right_bottom l 0 left\<rparr>"
  unfolding Let_def by (rule rupture_surface_unfold [OF assms])

lemma rupture_surface_total:
  fixes point_at :: "point \<Rightarrow> real \<Rightarrow> real \<Rightarrow> real \<Rightarrow> point"
    and src :: point_source and np :: nodal_plane and hypo :: point and mag :: real
  assumes "0 < get_median_area src mag (rake np)"
    and "0 < rupture_aspect_ratio src"
    and "0 < dip np" "dip np \<le> 90"
    and "upper_seismogenic_depth src < lower_seismogenic_depth src"
    and hypo: "upper_seismogenic_depth src \<le> depth hypo"
      "depth hypo \<le> lower_seismogenic_depth src"
  shows "\<exists>s. get_rupture_surface point_at src mag np hypo = Inr s"
proof -
  obtain l w where dims: "get_rupture_dimensions src mag np = Inr (l, w)"
    using rupture_dimensions_props [OF assms(1-5)] by blast
  show ?thesis
    by (rule exI) (rule rupture_surface_unfold [OF hypo dims])
qed

text \<open>
  The constructor establishes the conditions on the layer and on the hypocenter depths
  that the statements below assume.
\<close>

lemma point_source_init_checks:
  assumes "point_source_init src = Inr s"
  shows "s = src"
    and "0 \<le> upper_seismogenic_depth src"
    and "upper_seismogenic_depth src < lower_seismogenic_depth src"
    and "\<forall>h\<in>set (hypocenter_distribution src).
           upper_seismogenic_depth src \<le> snd h \<and> snd h \<le> lower_seismogenic_depth src"
  using assms
  by (auto simp add: point_source_init_def list_all_iff split: if_splits)

lemma over_hypocenters:
  assumes "\<forall>h\<in>set hds. \<exists>s. get_rupture_surface point_at src (fst m) (snd p)
              \<lparr>longitude = longitude loc, latitude = latitude loc, depth = snd h\<rparr> = Inr s"
  shows "\<exists>rs. ruptures_over_hypocenters point_at src tom loc f m p hds = Inr rs
           \<and> length rs = length hds
           \<and> (\<forall>k<length hds. is_rupture_of point_at src tom loc f m p (hds ! k) (rs ! k))"
  using assms
proof (induction hds)
  case Nil
  then show ?case by (cases m; cases p) simp
next
  case (Cons h hds)
  obtain mag rate npp np hp d where eq: "m = (mag, rate)" "p = (npp, np)" "h = (hp, d)"
    by (cases m; cases p; cases h) blast
  obtain s where s: "get_rupture_surface point_at src mag np
      \<lparr>longitude = longitude loc, latitude = latitude loc, depth = d\<rparr> = Inr s"
    using Cons.prems eq by auto
  obtain rs where rs: "ruptures_over_hypocenters point_at src tom loc f m p hds = Inr rs"
    "length rs = length hds"
    "\<forall>k<length hds. is_rupture_of point_at src tom loc f m p (hds ! k) (rs ! k)"
    using Cons by auto
  let ?r = "\<lparr>rupture_mag = mag, rupture_rake = rake np,
              rupture_tectonic_region_type = tectonic_region_type src,
              hypocenter = \<lparr>longitude = longitude loc, latitude = latitude loc, depth = d\<rparr>,
              surface = s, source_typology = source_class src,
              occurrence_rate = rate * npp * hp * f,
              temporal_occurrence_model = tom\<rparr>"
  have run: "ruptures_over_hypocenters point_at src tom loc f m p (h # hds) = Inr (?r # rs)"
    using s rs(1) by (simp add: eq Let_def)
  have head: "is_rupture_of point_at src tom loc f m p h ?r"
    using s by (simp add: is_rupture_of_def eq)
  have "is_rupture_of point_at src tom loc f m p ((h # hds) ! k) ((?r # rs) ! k)"
    if "k < length (h # hds)" for k
    using that head rs(3) by (cases k) simp_all
  then show ?case using run rs(2) by simp
qed

lemma over_nodal_planes:
  assumes "\<forall>p\<in>set nps. \<forall>h\<in>set (hypocenter_distribution src).
             \<exists>s. get_rupture_surface point_at src (fst m) (snd p)
              \<lparr>longitude = longitude loc, latitude = latitude loc, depth = snd h\<rparr> = Inr s"
  shows "\<exists>rs. ruptures_over_nodal_planes point_at src tom loc f m nps = Inr rs
           \<and> length rs = length nps * length (hypocenter_distribution src)
           \<and> (\<forall>j<length nps. \<forall>k<length (hypocenter_distribution src).
                 is_rupture_of point_at src tom loc f m (nps ! j)
                   (hypocenter_distribution src ! k)
                   (rs ! (j * length (hypocenter_distribution src) + k)))"
  using assms
proof (induction nps)
  case Nil
  then show ?case by simp
next
  case (Cons p nps)
  let ?hds = "hypocenter_distribution src"
  obtain r1 where r1: "ruptures_over_hypocenters point_at src tom loc f m p ?hds = Inr r1"
    "length r1 = length ?hds"
    "\<forall>k<length ?hds. is_rupture_of point_at src tom loc f m p (?hds ! k) (r1 ! k)"
    using over_hypocenters [of ?hds point_at src m p loc tom f] Cons.prems by auto
  obtain r2 where r2: "ruptures_over_nodal_planes point_at src tom loc f m nps = Inr r2"
    "length r2 = length nps * length ?hds"
    "\<forall>j<length nps. \<forall>k<length ?hds.
        is_rupture_of point_at src tom loc f m (nps ! j) (?hds ! k) (r2 ! (j * length ?hds + k))"
    using Cons by auto
  have run: "ruptures_over_nodal_planes point_at src tom loc f m (p # nps) = Inr (r1 @ r2)"
    using r1(1) r2(1) by simp
  have "is_rupture_of point_at src tom loc f m ((p # nps) ! j) (?hds ! k)
          ((r1 @ r2) ! (j * length ?hds + k))"
    if "j < length (p # nps)" "k < length ?hds" for j k
  proof (cases j)
    case 0
    then show ?thesis using that r1 by (simp add: nth_append)
  next
    case (Suc j')
    then have "(r1 @ r2) ! (j * length ?hds + k) = r2 ! (j' * length ?hds + k)"
      using r1(2) by (simp add: nth_append)
    then show ?thesis using Suc that r2(3) by simp
  qed
  then show ?case using run r1(2) r2(2) by simp
qed

lemma over_magnitudes:
  assumes "\<forall>m\<in>set ms. \<forall>p\<in>set (nodal_plane_distribution src).
           \<forall>h\<in>set (hypocenter_distribution src).
             \<exists>s. get_rupture_surface point_at src (fst m) (snd p)
              \<lparr>longitude = longitude loc, latitude = latitude loc, depth = snd h\<rparr> = Inr s"
  shows "\<exists>rs. ruptures_over_magnitudes point_at src tom loc f ms = Inr rs
           \<and> length rs = length ms * length (nodal_plane_distribution src)
                           * length (hypocenter_distribution src)
           \<and> (\<forall>i<length ms. \<forall>j<length (nodal_plane_distribution src).
                \<forall>k<length (hypocenter_distribution src).
                 is_rupture_of point_at src tom loc f (ms ! i)
                   (nodal_plane_distribution src ! j) (hypocenter_distribution src ! k)
                   (rs ! ((i * length (nodal_plane_distribution src) + j)
                            * length (hypocenter_distribution src) + k)))"
  using assms
proof (induction ms)
  case Nil
  then show ?case by simp
next
  case (Cons m ms)
  let ?hds = "hypocenter_distribution src" and ?nps = "nodal_plane_distribution src"
  let ?H = "length ?hds" and ?N = "length ?nps"
  obtain r1 where r1: "ruptures_over_nodal_planes point_at src tom loc f m ?nps = Inr r1"
    "length r1 = ?N * ?H"
    "\<forall>j<?N. \<forall>k<?H.
        is_rupture_of point_at src tom loc f m (?nps ! j) (?hds ! k) (r1 ! (j * ?H + k))"
    using over_nodal_planes [of ?nps src point_at m loc tom f] Cons.prems by auto
  obtain r2 where r2: "ruptures_over_magnitudes point_at src tom loc f ms = Inr r2"
    "length r2 = length ms * ?N * ?H"
    "\<forall>i<length ms. \<forall>j<?N. \<forall>k<?H.
        is_rupture_of point_at src tom loc f (ms ! i) (?nps ! j) (?hds ! k)
          (r2 ! ((i * ?N + j) * ?H + k))"
    using Cons by auto
  have run: "ruptures_over_magnitudes point_at src tom loc f (m # ms) = Inr (r1 @ r2)"
    using r1(1) r2(1) by simp
  have "is_rupture_of point_at src tom loc f ((m # ms) ! i) (?nps ! j) (?hds ! k)
          ((r1 @ r2) ! ((i * ?N + j) * ?H + k))"
    if "i < length (m # ms)" "j < ?N" "k < ?H" for i j k
  proof (cases i)
    case 0
    have "j * ?H + k < ?N * ?H"
    proof -
      have "j * ?H + k < j * ?H + ?H" using that(3) by simp
      also have "\<dots> = Suc j * ?H" by simp
      also have "\<dots> \<le> ?N * ?H" using that(2) by (intro mult_le_mono1) simp
      finally show ?thesis .
    qed
    then show ?thesis using 0 that r1 by (simp add: nth_append)
  next
    case (Suc i')
    have "(Suc i' * ?N + j) * ?H + k = ?N * ?H + ((i' * ?N + j) * ?H + k)"
      by (simp add: algebra_simps)
    then have "(r1 @ r2) ! ((i * ?N + j) * ?H + k) = r2 ! ((i' * ?N + j) * ?H + k)"
      using r1(2) Suc by (simp add: nth_append)
    then show ?thesis using Suc that r2(3) by simp
  qed
  then show ?case using run r1(2) r2(2) by (simp add: algebra_simps)
qed

text \<open>
  Claim C3. For a positive area, a positive aspect ratio, a dip in \<open>(0, 90]\<close> and
  \<open>upperDepth < lowerDepth\<close>, \<open>_get_rupture_dimensions\<close> returns a pair (length,
  width) with \<open>length * width = area\<close>, in exact arithmetic: when the unclipped width
  exceeds \<open>(lowerDepth - upperDepth) / sin(dip)\<close> the width is that bound and the
  length is the area divided by it, and otherwise the length is \<open>sqrt(area * aspect)\<close>
  and the width the area divided by the length.
\<close>

theorem rupture_dimensions_area:
  fixes src :: point_source and mag :: real and np :: nodal_plane
  assumes "0 < get_median_area src mag (rake np)"
    and "0 < rupture_aspect_ratio src"
    and "0 < dip np" "dip np \<le> 90"
    and "upper_seismogenic_depth src < lower_seismogenic_depth src"
  shows "let area = get_median_area src mag (rake np);
             unclipped_length = sqrt (area * rupture_aspect_ratio src);
             max_width = (lower_seismogenic_depth src - upper_seismogenic_depth src)
                           / sin (radians (dip np))
         in (\<exists>l w. get_rupture_dimensions src mag np = Inr (l, w) \<and> l * w = area)
          \<and> (area / unclipped_length > max_width \<longrightarrow>
               get_rupture_dimensions src mag np = Inr (area / max_width, max_width))
          \<and> (\<not> area / unclipped_length > max_width \<longrightarrow>
               get_rupture_dimensions src mag np
                 = Inr (unclipped_length, area / unclipped_length))"
proof -
  have "\<exists>l w. get_rupture_dimensions src mag np = Inr (l, w)
          \<and> l * w = get_median_area src mag (rake np)"
    using rupture_dimensions_props [OF assms] by blast
  then show ?thesis
    unfolding Let_def using rupture_dimensions_unfold(1) [OF assms] by simp
qed

theorem rupture_dimensions_area_witness:
  "0 < get_median_area (example_source 10) 6 (rake (example_plane 0))
   \<and> 0 < rupture_aspect_ratio (example_source 10)
   \<and> 0 < dip (example_plane 0) \<and> dip (example_plane 0) \<le> 90
   \<and> upper_seismogenic_depth (example_source 10) < lower_seismogenic_depth (example_source 10)
   \<and> upper_seismogenic_depth (example_source 1) < lower_seismogenic_depth (example_source 1)
   \<and> get_rupture_dimensions (example_source 10) 6 (example_plane 0) = Inr (2, 2)
   \<and> get_rupture_dimensions (example_source 1) 6 (example_plane 0) = Inr (4, 1)
   \<and> get_median_area (example_source 10) 6 (rake (example_plane 0)) = 2 * 2
   \<and> get_median_area (example_source 1) 6 (rake (example_plane 0)) = 4 * 1"
proof -
  have h: "0 < get_median_area (example_source lo) 6 (rake (example_plane 0))"
    "0 < rupture_aspect_ratio (example_source lo)"
    "0 < dip (example_plane 0)" "dip (example_plane 0) \<le> 90" for lo
    by (simp_all add: example_source_def example_plane_def)
  have l10: "upper_seismogenic_depth (example_source 10) < lower_seismogenic_depth (example_source 10)"
    and l1: "upper_seismogenic_depth (example_source 1) < lower_seismogenic_depth (example_source 1)"
    by (simp_all add: example_source_def)
  have v: "get_median_area (example_source lo) 6 (rake (example_plane 0)) = 4"
    "rupture_aspect_ratio (example_source lo) = 1"
    "lower_seismogenic_depth (example_source lo) = lo"
    "upper_seismogenic_depth (example_source lo) = 0"
    "sin (radians (dip (example_plane 0))) = 1" for lo
    by (simp_all add: example_source_def example_plane_def radians_def)
  have a: "get_rupture_dimensions (example_source 10) 6 (example_plane 0) = Inr (2, 2)"
    using rupture_dimensions_area [OF h(1) [of 10] h(2) [of 10] h(3,4) l10]
    by (simp add: Let_def v)
  have b: "get_rupture_dimensions (example_source 1) 6 (example_plane 0) = Inr (4, 1)"
    using rupture_dimensions_area [OF h(1) [of 1] h(2) [of 1] h(3,4) l1]
    by (simp add: Let_def v)
  show ?thesis using h(1,2) [of 10] h(3,4) l10 l1 a b v(1) by simp
qed


theorem rupture_surface_vertical_shift_witness:
  "upper_seismogenic_depth (example_source 10)
        \<le> depth \<lparr>longitude = 10, latitude = 20, depth = 1 / 2\<rparr>
   \<and> depth \<lparr>longitude = 10, latitude = 20, depth = 1 / 2\<rparr>
        \<le> lower_seismogenic_depth (example_source 10)
   \<and> get_rupture_dimensions (example_source 10) 6 (example_plane 0) = Inr (2, 2)
   \<and> spec_vshift 0 10 (1 / 2) 2 = 1 / 2
   \<and> get_rupture_surface example_point_at (example_source 10) 6 (example_plane 0)
             \<lparr>longitude = 10, latitude = 20, depth = 1 / 2\<rparr>
       = Inr \<lparr>surface_mesh_spacing = 1, surface_strike = 0, surface_dip = 90,
              top_left = \<lparr>longitude = 10, latitude = 20, depth = 0\<rparr>,
              top_right = \<lparr>longitude = 10, latitude = 20, depth = 0\<rparr>,
              bottom_right = \<lparr>longitude = 10, latitude = 20, depth = 2\<rparr>,
              bottom_left = \<lparr>longitude = 10, latitude = 20, depth = 2\<rparr>\<rparr>"
proof -
  have h: "upper_seismogenic_depth (example_source 10)
        \<le> depth \<lparr>longitude = 10, latitude = 20, depth = 1 / 2\<rparr>"
    "depth \<lparr>longitude = 10, latitude = 20, depth = 1 / 2\<rparr>
        \<le> lower_seismogenic_depth (example_source 10)"
    by (simp_all add: example_source_def)
  have d: "get_rupture_dimensions (example_source 10) 6 (example_plane 0) = Inr (2, 2)"
    by (simp add: get_rupture_dimensions_def example_source_def example_plane_def radians_def)
  have v: "spec_vshift 0 10 (1 / 2) 2 = 1 / 2"
    by (simp add: spec_vshift_def)
  have e: "lower_seismogenic_depth (example_source 10) = 10"
    "upper_seismogenic_depth (example_source 10) = 0"
    "rupture_mesh_spacing (example_source 10) = 1"
    "sin (radians 90) = 1" "cos (radians 90) = 0"
    "strike (example_plane 0) = 0" "dip (example_plane 0) = 90"
    by (simp_all add: example_source_def example_plane_def radians_def)
  have "get_rupture_surface example_point_at (example_source 10) 6 (example_plane 0)
             \<lparr>longitude = 10, latitude = 20, depth = 1 / 2\<rparr>
       = Inr \<lparr>surface_mesh_spacing = 1, surface_strike = 0, surface_dip = 90,
              top_left = \<lparr>longitude = 10, latitude = 20, depth = 0\<rparr>,
              top_right = \<lparr>longitude = 10, latitude = 20, depth = 0\<rparr>,
              bottom_right = \<lparr>longitude = 10, latitude = 20, depth = 2\<rparr>,
              bottom_left = \<lparr>longitude = 10, latitude = 20, depth = 2\<rparr>\<rparr>"
    using rupture_surface_vertical_shift [OF h d, where point_at = example_point_at]
    by (simp add: Let_def e v spec_rupture_center_def example_point_at_def)
  then show ?thesis using h d v by simp
qed

text \<open>
  Claim C7. For a positive rate scaling factor and a source whose ruptures can all be
  built (positive aspect ratio and areas, dips in \<open>(0, 90]\<close>, hypocenter depths within
  the seismogenic layer), \<open>_iter_ruptures_at_location\<close> yields exactly
  \<open>|magnitudes| * |nodal planes| * |hypocenter depths|\<close> ruptures, magnitudes
  outermost, then nodal planes, then hypocenter depths, each in table order: the rupture
  at position \<open>(i * |nodal planes| + j) * |depths| + k\<close> is the one of magnitude bin \<open>i\<close>,
  nodal plane \<open>j\<close> and depth \<open>k\<close>, with the product of the three table values and the
  scaling factor as occurrence rate and the given longitude and latitude with the sampled
  depth as hypocenter. \<open>iter_ruptures\<close> uses the factor 1, and a factor that is not
  positive fails the assertion.
\<close>

theorem iter_ruptures_enumeration:
  fixes point_at :: "point \<Rightarrow> real \<Rightarrow> real \<Rightarrow> real \<Rightarrow> point"
    and src :: point_source and tom :: 'tom and loc :: point and f :: real
  assumes f: "0 < f"
    and ar: "0 < rupture_aspect_ratio src"
    and layer: "upper_seismogenic_depth src < lower_seismogenic_depth src"
    and planes: "\<forall>m\<in>set (get_annual_occurrence_rates src).
                 \<forall>p\<in>set (nodal_plane_distribution src).
                   0 < get_median_area src (fst m) (rake (snd p))
                 \<and> 0 < dip (snd p) \<and> dip (snd p) \<le> 90"
    and depths: "\<forall>h\<in>set (hypocenter_distribution src).
                   upper_seismogenic_depth src \<le> snd h
                 \<and> snd h \<le> lower_seismogenic_depth src"
  shows "(\<exists>rs. iter_ruptures_at_location point_at src tom loc f = Inr rs
            \<and> length rs = length (get_annual_occurrence_rates src)
                            * length (nodal_plane_distribution src)
                            * length (hypocenter_distribution src)
            \<and> (\<forall>i<length (get_annual_occurrence_rates src).
                \<forall>j<length (nodal_plane_distribution src).
                \<forall>k<length (hypocenter_distribution src).
                  is_rupture_of point_at src tom loc f
                    (get_annual_occurrence_rates src ! i)
                    (nodal_plane_distribution src ! j)
                    (hypocenter_distribution src ! k)
                    (rs ! ((i * length (nodal_plane_distribution src) + j)
                             * length (hypocenter_distribution src) + k))))
       \<and> iter_ruptures point_at src tom
           = iter_ruptures_at_location point_at src tom (location src) 1
       \<and> (\<forall>g. g \<le> 0 \<longrightarrow>
             iter_ruptures_at_location point_at src tom loc g = Inl AssertionError)"
proof -
  have ok: "\<exists>s. get_rupture_surface point_at src (fst m) (snd p)
              \<lparr>longitude = longitude loc, latitude = latitude loc, depth = snd h\<rparr> = Inr s"
    if "m \<in> set (get_annual_occurrence_rates src)" "p \<in> set (nodal_plane_distribution src)"
      "h \<in> set (hypocenter_distribution src)" for m p h
  proof -
    have a: "0 < get_median_area src (fst m) (rake (snd p))"
      and d: "0 < dip (snd p)" "dip (snd p) \<le> 90"
      using planes that(1,2) by blast+
    have h: "upper_seismogenic_depth src
          \<le> depth \<lparr>longitude = longitude loc, latitude = latitude loc, depth = snd h\<rparr>"
      "depth \<lparr>longitude = longitude loc, latitude = latitude loc, depth = snd h\<rparr>
          \<le> lower_seismogenic_depth src"
      using depths that(3) by simp_all
    show ?thesis by (rule rupture_surface_total [OF a ar d layer h])
  qed
  have run: "iter_ruptures_at_location point_at src tom loc f
      = ruptures_over_magnitudes point_at src tom loc f (get_annual_occurrence_rates src)"
    using f by (simp add: iter_ruptures_at_location_def)
  have main: "\<exists>rs. iter_ruptures_at_location point_at src tom loc f = Inr rs
            \<and> length rs = length (get_annual_occurrence_rates src)
                            * length (nodal_plane_distribution src)
                            * length (hypocenter_distribution src)
            \<and> (\<forall>i<length (get_annual_occurrence_rates src).
                \<forall>j<length (nodal_plane_distribution src).
                \<forall>k<length (hypocenter_distribution src).
                  is_rupture_of point_at src tom loc f
                    (get_annual_occurrence_rates src ! i)
                    (nodal_plane_distribution src ! j)
                    (hypocenter_distribution src ! k)
                    (rs ! ((i * length (nodal_plane_distribution src) + j)
                             * length (hypocenter_distribution src) + k)))"
    unfolding run
    by (rule over_magnitudes) (use ok in blast)
  have "iter_ruptures point_at src tom
           = iter_ruptures_at_location point_at src tom (location src) 1"
    by (simp add: iter_ruptures_def)
  moreover have "\<forall>g. g \<le> 0 \<longrightarrow>
             iter_ruptures_at_location point_at src tom loc g = Inl AssertionError"
    by (simp add: iter_ruptures_at_location_def)
  ultimately show ?thesis using main by blast
qed

theorem iter_ruptures_enumeration_witness:
  "0 < (1 / 2 :: real)
   \<and> 0 < rupture_aspect_ratio (example_source 10)
   \<and> upper_seismogenic_depth (example_source 10) < lower_seismogenic_depth (example_source 10)
   \<and> list_all (\<lambda>m. list_all (\<lambda>p.
          0 < get_median_area (example_source 10) (fst m) (rake (snd p))
        \<and> 0 < dip (snd p) \<and> dip (snd p) \<le> 90)
          (nodal_plane_distribution (example_source 10)))
        (get_annual_occurrence_rates (example_source 10))
   \<and> list_all (\<lambda>h. upper_seismogenic_depth (example_source 10) \<le> snd h
                    \<and> snd h \<le> lower_seismogenic_depth (example_source 10))
        (hypocenter_distribution (example_source 10))
   \<and> (\<exists>rs. iter_ruptures_at_location example_point_at (example_source 10) ()
              (location (example_source 10)) (1 / 2) = Inr rs
          \<and> length rs = 1 * 2 * 2
          \<and> rupture_mag (rs ! 3) = 6
          \<and> rupture_rake (rs ! 3) = 90
          \<and> hypocenter (rs ! 3) = \<lparr>longitude = 10, latitude = 20, depth = 5\<rparr>
          \<and> occurrence_rate (rs ! 3) = 1 / 100 * (3 / 4) * (1 / 2) * (1 / 2))"
proof -
  let ?src = "example_source 10"
  have f: "0 < (1 / 2 :: real)" by simp
  have ar: "0 < rupture_aspect_ratio ?src"
    and layer: "upper_seismogenic_depth ?src < lower_seismogenic_depth ?src"
    by (simp_all add: example_source_def)
  have planes: "\<forall>m\<in>set (get_annual_occurrence_rates ?src).
                 \<forall>p\<in>set (nodal_plane_distribution ?src).
                   0 < get_median_area ?src (fst m) (rake (snd p))
                 \<and> 0 < dip (snd p) \<and> dip (snd p) \<le> 90"
    by (simp add: example_source_def example_plane_def)
  have depths: "\<forall>h\<in>set (hypocenter_distribution ?src).
                   upper_seismogenic_depth ?src \<le> snd h
                 \<and> snd h \<le> lower_seismogenic_depth ?src"
    by (simp add: example_source_def)
  have tables: "get_annual_occurrence_rates ?src = [(6, 1 / 100)]"
    "nodal_plane_distribution ?src = [(1 / 4, example_plane 0), (3 / 4, example_plane 90)]"
    "hypocenter_distribution ?src = [(1 / 2, 1 / 2), (1 / 2, 5)]"
    "location ?src = \<lparr>longitude = 10, latitude = 20, depth = 0\<rparr>"
    by (simp_all add: example_source_def)
  obtain rs where rs: "iter_ruptures_at_location example_point_at ?src ()
              (location ?src) (1 / 2) = Inr rs"
    "length rs = length (get_annual_occurrence_rates ?src)
                   * length (nodal_plane_distribution ?src)
                   * length (hypocenter_distribution ?src)"
    and all: "\<forall>i<length (get_annual_occurrence_rates ?src).
                \<forall>j<length (nodal_plane_distribution ?src).
                \<forall>k<length (hypocenter_distribution ?src).
                  is_rupture_of example_point_at ?src () (location ?src) (1 / 2)
                    (get_annual_occurrence_rates ?src ! i)
                    (nodal_plane_distribution ?src ! j)
                    (hypocenter_distribution ?src ! k)
                    (rs ! ((i * length (nodal_plane_distribution ?src) + j)
                             * length (hypocenter_distribution ?src) + k))"
    using iter_ruptures_enumeration [OF f ar layer planes depths,
        where point_at = example_point_at and tom = "()" and loc = "location ?src"]
    by blast
  have "is_rupture_of example_point_at ?src () (location ?src) (1 / 2)
          (6, 1 / 100) (3 / 4, example_plane 90) (1 / 2, 5) (rs ! 3)"
    using all [rule_format, of 0 1 1] by (simp add: tables eval_nat_numeral)
  then have "rupture_mag (rs ! 3) = 6 \<and> rupture_rake (rs ! 3) = 90
          \<and> hypocenter (rs ! 3) = \<lparr>longitude = 10, latitude = 20, depth = 5\<rparr>
          \<and> occurrence_rate (rs ! 3) = 1 / 100 * (3 / 4) * (1 / 2) * (1 / 2)"
    by (simp add: is_rupture_of_def tables example_plane_def)
  moreover have "length rs = 1 * 2 * 2" using rs(2) by (simp add: tables)
  ultimately have "\<exists>rs. iter_ruptures_at_location example_point_at ?src ()
              (location ?src) (1 / 2) = Inr rs
          \<and> length rs = 1 * 2 * 2
          \<and> rupture_mag (rs ! 3) = 6
          \<and> rupture_rake (rs ! 3) = 90
          \<and> hypocenter (rs ! 3) = \<lparr>longitude = 10, latitude = 20, depth = 5\<rparr>
          \<and> occurrence_rate (rs ! 3) = 1 / 100 * (3 / 4) * (1 / 2) * (1 / 2)"
    using rs(1) by blast
  then show ?thesis
    using f ar layer planes depths by (simp add: list_all_iff)
qed

section \<open>The rupture surface in floating-point arithmetic\<close>

text \<open>
  A float with exponent \<open>52 - k\<close> is an integer multiple of \<open>1 / 2 ^ k\<close>: rounding
  scales by \<open>2 ^ k\<close>, rounds to an integer and scales back.
\<close>

lemma round64_scaled:
  fixes x :: real and k :: nat
  assumes lo: "2 ^ 52 \<le> \<bar>x\<bar> * 2 ^ k" and hi: "\<bar>x\<bar> * 2 ^ k < 2 ^ 53"
  shows "round64 x = of_int (round_half_even (x * 2 ^ k)) / 2 ^ k"
proof -
  have x0: "x \<noteq> 0" using lo by auto
  then have ax: "0 < \<bar>x\<bar>" by simp
  have p: "(2::real) powr (52 - real k) = 2 ^ 52 / 2 ^ k"
    by (simp add: powr_diff powr_realpow)
  have p1: "(2::real) powr (52 - real k + 1) = 2 ^ 53 / 2 ^ k"
    by (simp add: powr_diff powr_add powr_realpow)
  have "2 powr (52 - real k) \<le> \<bar>x\<bar>"
    unfolding p using lo by (simp add: field_simps)
  moreover have "\<bar>x\<bar> < 2 powr (52 - real k + 1)"
    unfolding p1 using hi by (simp add: field_simps)
  ultimately have "\<lfloor>log 2 \<bar>x\<bar>\<rfloor> = 52 - int k"
    using floor_log_eq_powr_iff [of "\<bar>x\<bar>" 2 "52 - int k"] ax by simp
  then have "2 powr (of_int \<lfloor>log 2 \<bar>x\<bar>\<rfloor> - 52) = 2 powr (- real k)" by simp
  also have "\<dots> = 1 / 2 ^ k" by (simp add: powr_minus powr_realpow field_simps)
  finally show ?thesis using x0 by (simp add: round64_def Let_def)
qed

lemma r01: "round64 (1 / 10) = 3602879701896397 / 2 ^ 55"
  by (subst round64_scaled [where k = 56]) (simp_all add: round_half_even_def Let_def)

lemma r02: "round64 (2 / 10) = 3602879701896397 / 2 ^ 54"
  by (subst round64_scaled [where k = 55]) (simp_all add: round_half_even_def Let_def)

lemma r04: "round64 (4 / 10) = 3602879701896397 / 2 ^ 53"
  by (subst round64_scaled [where k = 54]) (simp_all add: round_half_even_def Let_def)

























end
